theory Spec2Isabelle
  imports Main "HOL-Library.Sublist" "HOL-Library.AList" "HOL-Library.Char_ord"
    "HOL-Library.List_Lexorder"
begin

section \<open>Log entries (entry.go)\<close>

text \<open>
  A value stored under a key of \<open>Fields\<close> (Go's \<open>map[string]any\<close>), as far as
  JSON can carry it.
\<close>

datatype jval =
    JNull
  | JBool bool
  | JNum int
  | JStr string
  | JList "jval list"
  | JMap "(string \<times> jval) list"

text \<open>
  \<open>LogLevel\<close> is a string type; \<open>LevelNone\<close> is the empty string. \<open>Fields\<close> is
  a map that may be nil: \<open>None\<close> is the nil map.
\<close>

type_synonym LogLevel = string

definition LevelNone :: LogLevel where
  "LevelNone = []"

record LogEntry =
  AppType :: string
  Timestamp :: string
  Level :: LogLevel
  Message :: string
  Fields :: "(string \<times> jval) list option"

text \<open>
  What the package takes from outside itself: the functions of Go's standard library it
  calls whose results depend on data this package does not define, and the network.
  \<^item> \<open>marshalEntry\<close>: \<open>json.Marshal\<close> of one entry (\<open>Inl\<close> carries the error's text);
  \<^item> \<open>unmarshalBatch\<close>: \<open>json.Unmarshal\<close> into a slice of entries (\<open>Inl\<close> carries the
    error's text);
  \<^item> \<open>showFields\<close>: the \<open>%v\<close> rendering of a map;
  \<^item> \<open>gzipBytes\<close>: writing a text to a gzip writer and closing it;
  \<^item> \<open>urlError\<close>: the error of \<open>http.NewRequest\<close> for a URL, if it has one;
  \<^item> \<open>httpDo\<close>: the outcome of \<open>client.Do\<close> for the request issued after \<open>n\<close> earlier
    ones;
  \<^item> \<open>writeError\<close>: the error of \<open>os.WriteFile\<close> for a file name of the failover
    directory, if it has one.
\<close>

datatype gz_result = GzWriteError string | GzCloseError string | GzOk string

record request =
  http_method :: string
  url :: string
  headers :: "(string \<times> string) list"
  body :: string

text \<open>
  A response carries its status code, its status line and what \<open>io.ReadAll\<close> gives for
  its body (\<open>Inl\<close> carries the error's text).
\<close>

datatype http_outcome =
    TransportError string
  | Response int string "string + string"

record env =
  marshalEntry :: "LogEntry \<Rightarrow> string + string"
  unmarshalBatch :: "string \<Rightarrow> string + LogEntry list"
  showFields :: "(string \<times> jval) list \<Rightarrow> string"
  gzipBytes :: "string \<Rightarrow> gz_result"
  urlError :: "string \<Rightarrow> string option"
  httpDo :: "nat \<Rightarrow> request \<Rightarrow> http_outcome"
  writeError :: "string \<Rightarrow> string option"

text \<open>\<open>strings.Trim(s, cutset)\<close>: all leading and trailing bytes of the cutset removed.\<close>

definition Trim :: "string \<Rightarrow> string \<Rightarrow> string" where
  "Trim s cutset =
     rev (dropWhile (\<lambda>c. c \<in> set cutset) (rev (dropWhile (\<lambda>c. c \<in> set cutset) s)))"

definition newline :: string where
  "newline = [CHR 0x0A]"

text \<open>The verb \<open>%-36s\<close>: the string, then blanks up to width 36.\<close>

definition pad36 :: "string \<Rightarrow> string" where
  "pad36 s = s @ replicate (36 - length s) CHR '' ''"

text \<open>
  Both methods have a pointer receiver, so each returns the entry as the call leaves it,
  next to its result. \<open>String\<close> assigns to no field. \<open>Json\<close> assigns the trimmed
  message to \<open>entry.Message\<close> before marshalling.
\<close>

definition String :: "env \<Rightarrow> LogEntry \<Rightarrow> LogEntry \<times> string" where
  "String lib entry =
     (let fields = (case Fields entry of None \<Rightarrow> [] | Some m \<Rightarrow> '', fields: '' @ showFields lib m);
          level = (if Level entry \<noteq> LevelNone then ''['' @ Level entry @ ''] '' else [])
      in (entry,
          pad36 (Timestamp entry) @ '' '' @ level @ Trim (Message entry) newline @ fields))"

definition Json :: "env \<Rightarrow> LogEntry \<Rightarrow> LogEntry \<times> string" where
  "Json lib entry =
     (let entry1 = entry\<lparr>Message := Trim (Message entry) newline\<rparr>
      in (entry1,
          case marshalEntry lib entry1 of
            Inl err \<Rightarrow> ''{\"error\": \"Failed to marshal log entry: '' @ err @ ''\"}''
          | Inr logJSON \<Rightarrow> logJSON))"

section \<open>The Elasticsearch sink: one delivery attempt\<close>

record EsConfig =
  ES_URL :: string
  ES_API_KEY :: string
  ES_INDEX_NAME :: string
  TimeToHold :: int
  EntriesToHold :: int
  FailoverDir :: string
  MaxFailoverFiles :: int

text \<open>
  An entry of the failover directory is a regular file with its contents or a
  subdirectory. The directory itself is the list of its entries by name, or the error of
  \<open>os.ReadDir\<close> when it cannot be listed.
\<close>

datatype node = File string | Subdir

type_synonym directory = "(string \<times> node) list"

text \<open>
  The state the sink acts on: the HTTP requests issued so far, the failover directory,
  and the lines printed by \<open>stdoutLogger\<close>.
\<close>

record world =
  sent :: "request list"
  fdir :: "string + directory"
  diag :: "string list"

definition action_line :: "string \<Rightarrow> string" where
  "action_line idx = ''{ \"index\": { \"_index\": \"'' @ idx @ ''\" } }''"

text \<open>
  The loop of \<open>sendToElasticsearch\<close> over the entries: each entry is serialized with
  \<open>Json\<close> (which stores its trimmed message), and an action line and the document, each
  followed by a newline, are appended to the buffer. The result is the entries as the
  loop leaves them and the buffer.
\<close>

fun bulk_body :: "env \<Rightarrow> string \<Rightarrow> LogEntry list \<Rightarrow> LogEntry list \<times> string" where
  "bulk_body lib idx [] = ([], [])"
| "bulk_body lib idx (entry # entrys) =
     (let (entry1, json) = Json lib entry;
          (rest, buf) = bulk_body lib idx entrys
      in (entry1 # rest, action_line idx @ newline @ json @ newline @ buf))"

definition bulk_request :: "EsConfig \<Rightarrow> string \<Rightarrow> request" where
  "bulk_request cfg gzipBuf =
     \<lparr>http_method = ''POST'',
      url = ES_URL cfg @ ''/_bulk?pretty&pipeline=ent-search-generic-ingestion'',
      headers = [(''Authorization'', ''ApiKey '' @ ES_API_KEY cfg),
                 (''Content-Type'', ''application/json''),
                 (''Content-Encoding'', ''gzip'')],
      body = gzipBuf\<rparr>"

text \<open>
  \<open>sendToElasticsearch\<close>: the result is the state, the entries as the call leaves them
  and the error (\<open>None\<close> is nil). A request that \<open>client.Do\<close> is called with is
  appended to \<open>sent\<close>.
\<close>

definition sendToElasticsearch ::
  "env \<Rightarrow> EsConfig option \<Rightarrow> world \<Rightarrow> LogEntry list \<Rightarrow> world \<times> LogEntry list \<times> string option" where
  "sendToElasticsearch lib e w entrys =
     (case e of
        None \<Rightarrow> (w, entrys, Some ''elasticsearch config is not set'')
      | Some cfg \<Rightarrow>
          (let (entrys1, buf) = bulk_body lib (ES_INDEX_NAME cfg) entrys
           in case gzipBytes lib buf of
                GzWriteError err \<Rightarrow> (w, entrys1, Some (''Error writing to gzip writer: '' @ err))
              | GzCloseError err \<Rightarrow> (w, entrys1, Some (''Error closing gzip writer: '' @ err))
              | GzOk gzipBuf \<Rightarrow>
                  (let req = bulk_request cfg gzipBuf
                   in case urlError lib (url req) of
                        Some err \<Rightarrow> (w, entrys1, Some (''Error creating HTTP request: '' @ err))
                      | None \<Rightarrow>
                          (let w1 = w\<lparr>sent := sent w @ [req]\<rparr>
                           in case httpDo lib (length (sent w)) req of
                                TransportError err \<Rightarrow>
                                  (w1, entrys1, Some (''Error sending HTTP request: '' @ err))
                              | Response code status rbody \<Rightarrow>
                                  if code \<noteq> 200 then
                                    (let responseStatus = ''Error Response Status: '' @ status
                                     in case rbody of
                                          Inl err \<Rightarrow>
                                            (w1, entrys1,
                                             Some (responseStatus @ newline
                                                   @ ''Error reading response body: '' @ err))
                                        | Inr b \<Rightarrow>
                                            (w1, entrys1,
                                             Some (responseStatus @ newline
                                                   @ ''Response Body: '' @ b)))
                                  else (w1, entrys1, None)))))"

section \<open>The failover store\<close>

text \<open>The verb \<open>%d\<close>: an integer in decimal, with a minus sign when negative.\<close>

definition digit_char :: "nat \<Rightarrow> char" where
  "digit_char d = ''0123456789'' ! d"

function show_nat :: "nat \<Rightarrow> string" where
  "show_nat n = (if n < 10 then [digit_char n] else show_nat (n div 10) @ [digit_char (n mod 10)])"
  by pat_completeness auto
termination
  by (relation "measure id") auto

declare show_nat.simps [simp del]

definition show_int :: "int \<Rightarrow> string" where
  "show_int i = (if i < 0 then CHR ''-'' # show_nat (nat (- i)) else show_nat (nat i))"

text \<open>The name of the record written at clock reading \<open>t\<close> (\<open>time.Now().UnixNano()\<close>).\<close>

definition batch_name :: "int \<Rightarrow> string" where
  "batch_name t = ''batch-'' @ show_int t @ ''.json''"

text \<open>
  \<open>json.Marshal\<close> of a slice of entries: the elements in order between brackets,
  separated by commas, and the first element's error if one cannot be marshalled. The
  empty list stands for the nil slice, the only empty slice the sink ever holds.
\<close>

fun marshal_elems :: "env \<Rightarrow> LogEntry list \<Rightarrow> string + string list" where
  "marshal_elems lib [] = Inr []"
| "marshal_elems lib (e # es) =
     (case marshalEntry lib e of
        Inl err \<Rightarrow> Inl err
      | Inr j \<Rightarrow> (case marshal_elems lib es of Inl err \<Rightarrow> Inl err | Inr js \<Rightarrow> Inr (j # js)))"

fun join_comma :: "string list \<Rightarrow> string" where
  "join_comma [] = []"
| "join_comma [j] = j"
| "join_comma (j # js) = j @ '','' @ join_comma js"

definition marshalBatch :: "env \<Rightarrow> LogEntry list \<Rightarrow> string + string" where
  "marshalBatch lib entries =
     (if entries = [] then Inr ''null''
      else case marshal_elems lib entries of
             Inl err \<Rightarrow> Inl err
           | Inr js \<Rightarrow> Inr (''['' @ join_comma js @ '']''))"

text \<open>
  File operations on the failover directory. All paths the sink builds are the
  directory joined with a name, so a path is represented by its name. \<open>os.WriteFile\<close>
  creates the file or replaces its contents; it fails on a subdirectory and where the
  environment says so, and then leaves the directory as it was. \<open>os.ReadFile\<close> fails on
  a subdirectory and on a missing name. \<open>os.Remove\<close> deletes the entry; the sink ignores
  its error.
\<close>

definition WriteFile :: "env \<Rightarrow> directory \<Rightarrow> string \<Rightarrow> string \<Rightarrow> string + directory" where
  "WriteFile lib files name data =
     (case writeError lib name of
        Some err \<Rightarrow> Inl err
      | None \<Rightarrow>
          (case map_of files name of
             Some Subdir \<Rightarrow> Inl (''open '' @ name @ '': is a directory'')
           | _ \<Rightarrow> Inr (AList.update name (File data) files)))"

definition ReadFile :: "string + directory \<Rightarrow> string \<Rightarrow> string + string" where
  "ReadFile d name =
     (case d of
        Inl err \<Rightarrow> Inl err
      | Inr files \<Rightarrow>
          (case map_of files name of
             Some (File data) \<Rightarrow> Inr data
           | Some Subdir \<Rightarrow> Inl (''read '' @ name @ '': is a directory'')
           | None \<Rightarrow> Inl (''open '' @ name @ '': no such file or directory'')))"

definition Remove :: "string \<Rightarrow> world \<Rightarrow> world" where
  "Remove name w =
     w\<lparr>fdir := (case fdir w of Inl err \<Rightarrow> Inl err | Inr files \<Rightarrow> Inr (AList.delete name files))\<rparr>"

text \<open>
  \<open>filepath.Glob\<close> with the pattern \<open>*.json\<close> in the failover directory: the names that
  end in \<open>.json\<close>, whatever kind of entry they name; a directory that cannot be listed
  gives no match and no error.
\<close>

definition Glob_json :: "string + directory \<Rightarrow> string list" where
  "Glob_json d = (case d of Inl err \<Rightarrow> [] | Inr files \<Rightarrow> filter (suffix ''.json'') (map fst files))"

definition println :: "world \<Rightarrow> string \<Rightarrow> world" where
  "println w line = w\<lparr>diag := diag w @ [line]\<rparr>"

text \<open>\<open>saveBatchToDisk\<close>, called at clock reading \<open>now\<close>.\<close>

definition saveBatchToDisk ::
  "env \<Rightarrow> EsConfig \<Rightarrow> int \<Rightarrow> world \<Rightarrow> LogEntry list \<Rightarrow> world \<times> string option" where
  "saveBatchToDisk lib cfg now w entries =
     (if FailoverDir cfg = [] then (w, Some ''FailoverDir is not configured'')
      else case fdir w of
             Inl err \<Rightarrow> (w, Some (''could not read failover directory: '' @ err))
           | Inr files \<Rightarrow>
               if int (length files) \<ge> MaxFailoverFiles cfg then
                 (w, Some (''max failover files limit ('' @ show_int (MaxFailoverFiles cfg)
                           @ '') reached, discarding batch''))
               else
                 (case marshalBatch lib entries of
                    Inl err \<Rightarrow> (w, Some (''failed to marshal batch for disk save: '' @ err))
                  | Inr data \<Rightarrow>
                      (let fileName = batch_name now
                       in case WriteFile lib files fileName data of
                            Inl err \<Rightarrow> (w, Some err)
                          | Inr files1 \<Rightarrow> (w\<lparr>fdir := Inr files1\<rparr>, None))))"

text \<open>
  The file a retry cycle works on (lines 249 to 256 of \<open>processFailoverFiles\<close>): the
  matches of the pattern are sorted with \<open>sort.Strings\<close>, which compares byte by byte,
  and the first one is taken; no match, no file.
\<close>

definition firstFailoverFile :: "string + directory \<Rightarrow> string option" where
  "firstFailoverFile d =
     (let files = Glob_json d
      in if files = [] then None else Some (hd (sort files)))"

text \<open>\<open>processFailoverFiles\<close>: one retry cycle.\<close>

definition processFailoverFiles :: "env \<Rightarrow> EsConfig \<Rightarrow> world \<Rightarrow> world \<times> bool" where
  "processFailoverFiles lib cfg w =
     (if FailoverDir cfg = [] then (w, False)
      else
        (case firstFailoverFile (fdir w) of
           None \<Rightarrow> (w, False)
         | Some filePath \<Rightarrow>
             (case ReadFile (fdir w) filePath of
                Inl err \<Rightarrow>
                  (println w (''error reading failover file '' @ filePath @ '': '' @ err), False)
              | Inr data \<Rightarrow>
                  (case unmarshalBatch lib data of
                     Inl err \<Rightarrow>
                       (Remove filePath
                          (println w (''error unmarshalling failover file '' @ filePath @ '': ''
                                      @ err @ '', deleting corrupt file.'')),
                        False)
                   | Inr entries \<Rightarrow>
                       (let w1 = println w (''attempting to send batch from failover file: ''
                                            @ filePath);
                            (w2, entries1, err) = sendToElasticsearch lib (Some cfg) w1 entries
                        in case err of
                             None \<Rightarrow>
                               (Remove filePath
                                  (println w2 (''successfully sent batch from '' @ filePath
                                               @ '', deleting file.'')),
                                True)
                           | Some e \<Rightarrow>
                               (println w2 (''failed to send batch from '' @ filePath
                                            @ '', will retry later: '' @ e),
                                False))))))"

text \<open>\<open>sendOrSave\<close>: a flush of the batch, at clock reading \<open>now\<close>.\<close>

definition sendOrSave :: "env \<Rightarrow> EsConfig \<Rightarrow> int \<Rightarrow> world \<Rightarrow> LogEntry list \<Rightarrow> world" where
  "sendOrSave lib cfg now w entries =
     (let (w1, entries1, err) = sendToElasticsearch lib (Some cfg) w entries
      in case err of
           None \<Rightarrow> w1
         | Some e \<Rightarrow>
             (let w2 = println w1
                    (''error sending log entries to Elasticsearch, saving to disk for retry: '' @ e);
                  (w3, err2) = saveBatchToDisk lib cfg now w2 entries1
              in case err2 of
                   None \<Rightarrow> println w3 ''successfully saved failed batch to disk''
                 | Some e2 \<Rightarrow> println w3 (''CRITICAL: Failed to save batch to disk: '' @ e2)))"

text \<open>An entry of the failover directory whose name the pattern \<open>*.json\<close> does not match.\<close>

definition not_record :: "string \<times> node \<Rightarrow> bool" where
  "not_record x = (\<not> suffix ''.json'' (fst x))"

section \<open>The worker of the Elasticsearch sink\<close>

text \<open>
  What the \<open>select\<close> of \<open>entryHandler\<close> can receive: an entry from the channel, the
  closing of the channel, or a tick. The worker's own state is the batch, the number of
  times it has reset the ticker, and whether it is still running.
\<close>

datatype event = Recv LogEntry | Closed | Tick

record handler =
  entries :: "LogEntry list"
  resets :: nat
  running :: bool

definition onSelect ::
  "env \<Rightarrow> EsConfig \<Rightarrow> int \<Rightarrow> handler \<times> world \<Rightarrow> event \<Rightarrow> handler \<times> world" where
  "onSelect lib cfg now hw ev =
     (let (h, w) = hw
      in case ev of
           Closed \<Rightarrow>
             (h\<lparr>running := False\<rparr>,
              if length (entries h) > 0 then sendOrSave lib cfg now w (entries h) else w)
         | Recv entry \<Rightarrow>
             (let es = entries h @ [entry]
              in if int (length es) \<ge> EntriesToHold cfg
                 then (h\<lparr>entries := [], resets := Suc (resets h)\<rparr>, sendOrSave lib cfg now w es)
                 else (h\<lparr>entries := es\<rparr>, w))
         | Tick \<Rightarrow>
             if length (entries h) > 0
             then (h\<lparr>entries := []\<rparr>, sendOrSave lib cfg now w (entries h))
             else (h, w))"

section \<open>The file sink (file.go)\<close>

record FileConfig =
  Folder :: string
  CreateNewAfter :: int

text \<open>
  The struct \<open>file\<close>: \<open>f\<close> is the current \<open>*os.File\<close>, given by its name, \<open>None\<close> for
  nil; \<open>fCreatedAt\<close> is a clock reading.
\<close>

record fileSink =
  fileConfig :: FileConfig
  AppShort :: string
  f :: "string option"
  fCreatedAt :: int

text \<open>
  The disk as the file sink sees it: the dirs that exist, the regular files with
  their contents, the names of the files \<open>Close\<close> was called on, and the names the
  worker has scheduled a compression task for with \<open>time.AfterFunc\<close>, both in order.
\<close>

record disk =
  dirs :: "string list"
  logfiles :: "(string \<times> string) list"
  closed :: "string list"
  scheduled :: "string list"

text \<open>
  What the file sink takes from outside: \<open>os.TempDir\<close>, the layout
  \<open>2006.01.02-15.04.05\<close> of a clock reading, the errors of \<open>os.MkdirAll\<close>,
  \<open>os.OpenFile\<close> and \<open>os.Create\<close> for a path, if they have one, and what copying a text
  through a gzip writer and closing it gives.
\<close>

record fenv =
  tempDir :: string
  formatTime :: "int \<Rightarrow> string"
  mkdirError :: "string \<Rightarrow> string option"
  openError :: "string \<Rightarrow> string option"
  createError :: "string \<Rightarrow> string option"
  gzipCopy :: "string \<Rightarrow> gz_result"



definition ensureFolder :: "fenv \<Rightarrow> string \<Rightarrow> disk \<Rightarrow> string + disk" where
  "ensureFolder fe folder d =
     (if folder \<in> set (dirs d) then Inr d
      else (case mkdirError fe folder of
              Some err \<Rightarrow> Inl err
            | None \<Rightarrow> Inr (d\<lparr>dirs := dirs d @ [folder]\<rparr>)))"








section \<open>Decoding a bulk payload\<close>





section \<open>An environment for evaluation\<close>

text \<open>
  A small concrete environment to run the definitions on: entries are marshalled with
  their message only, newlines escaped; the gzip writer stores its input behind a
  two-byte mark; every URL is accepted; the endpoint answers the first request with 503
  and every later one with 200; every file can be written.
\<close>

fun escape_json :: "string \<Rightarrow> string" where
  "escape_json [] = []"
| "escape_json (c # cs) =
     (if c = CHR 0x0A then CHR 0x5C # CHR ''n'' # escape_json cs else c # escape_json cs)"

definition sample_env :: env where
  "sample_env =
     \<lparr>marshalEntry = (\<lambda>e. Inr (''{\"message\":\"'' @ escape_json (Message e) @ ''\"}'')),
      unmarshalBatch = (\<lambda>s. if s = ''[]'' then Inr [] else Inl ''unexpected end of JSON input''),
      showFields = (\<lambda>m. concat (map fst m)),
      gzipBytes = (\<lambda>s. GzOk (''gz'' @ s)),
      urlError = (\<lambda>u. None),
      httpDo = (\<lambda>n r. if n = 0 then Response 503 ''503 Service Unavailable'' (Inr ''busy'')
                        else Response 200 ''200 OK'' (Inr [])),
      writeError = (\<lambda>p. None)\<rparr>"


definition sample_cfg :: EsConfig where
  "sample_cfg =
     \<lparr>ES_URL = ''http://es:9200'', ES_API_KEY = ''k'', ES_INDEX_NAME = ''logs'',
      TimeToHold = 10000000000, EntriesToHold = 2, FailoverDir = ''/tmp/app/failover'',
      MaxFailoverFiles = 2\<rparr>"

definition sample_entry :: "string \<Rightarrow> LogEntry" where
  "sample_entry m =
     \<lparr>AppType = ''DEV'', Timestamp = ''2025-01-01T00:00:00Z'', Level = ''INFO'',
      Message = m, Fields = None\<rparr>"

definition empty_world :: world where
  "empty_world = \<lparr>sent = [], fdir = Inr [], diag = []\<rparr>"

section \<open>Properties of entries\<close>

text \<open>
  C8 (as amended). \<open>String\<close> leaves every field of the entry as it was. \<open>Json\<close> leaves
  \<open>AppType\<close>, \<open>Timestamp\<close>, \<open>Level\<close> and \<open>Fields\<close> as they were and stores the
  message with its leading and trailing newlines removed, so the entry is unchanged by
  \<open>Json\<close> exactly when trimming does not change its message.
\<close>

theorem entry_frame:
  "fst (String lib e) = e
   \<and> fst (Json lib e) = e\<lparr>Message := Trim (Message e) newline\<rparr>
   \<and> AppType (fst (Json lib e)) = AppType e
   \<and> Timestamp (fst (Json lib e)) = Timestamp e
   \<and> Level (fst (Json lib e)) = Level e
   \<and> Fields (fst (Json lib e)) = Fields e
   \<and> Message (fst (Json lib e)) = Trim (Message e) newline
   \<and> (fst (Json lib e) = e) = (Trim (Message e) newline = Message e)"
proof -
  have s: "fst (String lib e) = e"
    by (simp add: String_def Let_def)
  have j: "fst (Json lib e) = e\<lparr>Message := Trim (Message e) newline\<rparr>"
    by (simp add: Json_def Let_def)
  have u: "(e\<lparr>Message := Trim (Message e) newline\<rparr> = e) = (Trim (Message e) newline = Message e)"
    by (cases e) auto
  show ?thesis
    using s u by (simp add: j)
qed

text \<open>
  C8 as stated fails: serializing an entry whose message ends in a newline changes its
  \<open>Message\<close> field.
\<close>

theorem Json_mutates_message:
  "Message (fst (Json sample_env
         \<lparr>AppType = ''DEV'', Timestamp = ''2025-01-01T00:00:00Z'', Level = ''INFO'',
          Message = ''started'' @ newline, Fields = None\<rparr>))
   \<noteq> ''started'' @ newline"
  by (simp add: Json_def Let_def Trim_def newline_def)

section \<open>The bulk codec and the delivery client\<close>



lemma bulk_body_snd:
  "snd (bulk_body lib idx es) =
     concat (map (\<lambda>e. action_line idx @ newline @ snd (Json lib e) @ newline) es)"
  by (induction es) (auto simp: Let_def split: prod.splits)







text \<open>
  C6. One call of \<open>sendToElasticsearch\<close> returns nil exactly when it issued a request
  and the response's status code is 200. It issues at most one request and touches
  neither the failover directory nor the diagnostic output. Any other status is
  returned as one error carrying the status line and the body (or the error of reading
  the body), a transport error as one error carrying it.
\<close>

theorem delivery_result:
  assumes "sendToElasticsearch lib e w entrys = (w', entrys', r)"
  shows "(r = None) = (\<exists>cfg req st b. e = Some cfg \<and> sent w' = sent w @ [req]
                          \<and> httpDo lib (length (sent w)) req = Response 200 st b)
       \<and> (sent w' = sent w \<or> (\<exists>req. sent w' = sent w @ [req]))
       \<and> fdir w' = fdir w \<and> diag w' = diag w
       \<and> (\<forall>req code st b. sent w' = sent w @ [req] \<and> code \<noteq> 200
              \<and> httpDo lib (length (sent w)) req = Response code st (Inr b)
            \<longrightarrow> r = Some (''Error Response Status: '' @ st @ newline @ ''Response Body: '' @ b))
       \<and> (\<forall>req code st err. sent w' = sent w @ [req] \<and> code \<noteq> 200
              \<and> httpDo lib (length (sent w)) req = Response code st (Inl err)
            \<longrightarrow> r = Some (''Error Response Status: '' @ st @ newline
                           @ ''Error reading response body: '' @ err))
       \<and> (\<forall>req err. sent w' = sent w @ [req]
              \<and> httpDo lib (length (sent w)) req = TransportError err
            \<longrightarrow> r = Some (''Error sending HTTP request: '' @ err))"
  using assms
  by (auto simp: sendToElasticsearch_def Let_def
      split: prod.splits gz_result.splits option.splits http_outcome.splits sum.splits if_splits)


theorem delivery_result_witness:
  "snd (snd (sendToElasticsearch sample_env (Some sample_cfg) empty_world [sample_entry ''first'']))
   = Some (''Error Response Status: 503 Service Unavailable'' @ newline @ ''Response Body: busy'')"
proof -
  let ?r = "sendToElasticsearch sample_env (Some sample_cfg) empty_world [sample_entry ''first'']"
  let ?req = "bulk_request sample_cfg
     (''gz'' @ action_line ''logs'' @ newline @ ''{\"message\":\"first\"}'' @ newline)"
  have h: "?r = (fst ?r, fst (snd ?r), snd (snd ?r))"
    by simp
  have s: "sent (fst ?r) = sent empty_world @ [?req]"
    by (simp add: sendToElasticsearch_def sample_env_def sample_cfg_def sample_entry_def
        empty_world_def Let_def Json_def Trim_def newline_def bulk_request_def)
  have d: "httpDo sample_env (length (sent empty_world)) ?req
             = Response 503 ''503 Service Unavailable'' (Inr ''busy'')"
    by (simp add: sample_env_def empty_world_def)
  have "\<forall>req code st b. sent (fst ?r) = sent empty_world @ [req] \<and> code \<noteq> 200
              \<and> httpDo sample_env (length (sent empty_world)) req = Response code st (Inr b)
            \<longrightarrow> snd (snd ?r) = Some (''Error Response Status: '' @ st @ newline
                                      @ ''Response Body: '' @ b)"
    using delivery_result [OF h] by blast
  then have "snd (snd ?r) = Some (''Error Response Status: '' @ ''503 Service Unavailable''
                 @ newline @ ''Response Body: '' @ ''busy'')"
    using s d by (metis (no_types, lifting) numeral_eq_iff semiring_norm(88) zero_neq_numeral
          int_ops(1) of_nat_numeral)
  then show ?thesis by simp
qed

section \<open>The failover store: auxiliary facts\<close>

lemma send_frame:
  "fdir (fst (sendToElasticsearch lib e w es)) = fdir w \<and> diag (fst (sendToElasticsearch lib e w es)) = diag w"
  by (auto simp: sendToElasticsearch_def Let_def
      split: prod.splits gz_result.splits option.splits http_outcome.splits sum.splits if_splits)

lemma marshal_elems_in_order:
  "marshal_elems lib es = Inr js \<Longrightarrow> map Inr js = map (marshalEntry lib) es"
  by (induction es arbitrary: js) (auto split: sum.splits)

lemma save_full:
  assumes "fdir w = Inr files" and "int (length files) \<ge> MaxFailoverFiles cfg"
  shows "fst (saveBatchToDisk lib cfg now w es) = w \<and> snd (saveBatchToDisk lib cfg now w es) \<noteq> None"
  using assms by (simp add: saveBatchToDisk_def)

lemma save_changes_only_if_room:
  assumes "snd (saveBatchToDisk lib cfg now w es) = None"
  shows "\<exists>files. fdir w = Inr files \<and> int (length files) < MaxFailoverFiles cfg"
  using assms by (auto simp: saveBatchToDisk_def Let_def split: if_splits sum.splits)

lemma save_fresh:
  assumes "fdir w = Inr files" and "FailoverDir cfg \<noteq> []"
    and "int (length files) < MaxFailoverFiles cfg"
    and "marshalBatch lib es = Inr data"
    and "writeError lib (batch_name now) = None"
    and "batch_name now \<notin> fst ` set files"
  shows "saveBatchToDisk lib cfg now w es = (w\<lparr>fdir := Inr (files @ [(batch_name now, File data)])\<rparr>, None)"
proof -
  have m: "map_of files (batch_name now) = None"
    using assms(6) by (simp add: map_of_eq_None_iff)
  have u: "AList.update (batch_name now) (File data) files = files @ [(batch_name now, File data)]"
    using assms(6) by (induction files) auto
  show ?thesis
    using assms(1-5) m u by (simp add: saveBatchToDisk_def WriteFile_def Let_def)
qed


lemma hd_sort_least:
  fixes xs :: "'a::linorder list"
  assumes "xs \<noteq> []"
  shows "hd (sort xs) \<in> set xs \<and> (\<forall>m\<in>set xs. hd (sort xs) \<le> m)"
proof (cases "sort xs")
  case Nil
  then have "set (sort xs) = {}" by simp
  then show ?thesis using assms by simp
next
  case (Cons y ys)
  have "sorted (sort xs)" by simp
  then have s: "sorted (y # ys)" using Cons by simp
  have "set (sort xs) = set xs" by simp
  then have e: "set xs = set (y # ys)" using Cons by simp
  show ?thesis using s e Cons by auto
qed

lemma first_least:
  assumes "firstFailoverFile d = Some n"
  shows "n \<in> set (Glob_json d) \<and> (\<forall>m\<in>set (Glob_json d). n \<le> m)"
  using assms hd_sort_least [of "Glob_json d"]
  by (auto simp: firstFailoverFile_def Let_def split: if_splits)

lemma first_none: "(firstFailoverFile d = None) = (Glob_json d = [])"
  by (simp add: firstFailoverFile_def Let_def)







section \<open>The retry cycle\<close>

lemma println_simps [simp]:
  "fdir (println w l) = fdir w" "sent (println w l) = sent w" "diag (println w l) = diag w @ [l]"
  by (simp_all add: println_def)

lemma Remove_simps [simp]:
  "sent (Remove n w) = sent w" "diag (Remove n w) = diag w"
  "fdir w = Inr files \<Longrightarrow> fdir (Remove n w) = Inr (AList.delete n files)"
  by (simp_all add: Remove_def)

lemma send_fdir [simp]: "sendToElasticsearch lib e w es = (w2, es1, r) \<Longrightarrow> fdir w2 = fdir w"
  using send_frame [of lib e w es] by simp

lemma send_diag [simp]: "sendToElasticsearch lib e w es = (w2, es1, r) \<Longrightarrow> diag w2 = diag w"
  using send_frame [of lib e w es] by simp


lemma first_present:
  assumes "fdir w = Inr files" and "firstFailoverFile (fdir w) = Some n"
  shows "n \<in> fst ` set files" and "suffix ''.json'' n"
  using first_least [OF assms(2)] assms(1) by (auto simp: Glob_json_def)

lemma cycle_read_error:
  assumes "FailoverDir cfg \<noteq> []" and "firstFailoverFile (fdir w) = Some n"
    and "ReadFile (fdir w) n = Inl err"
  shows "processFailoverFiles lib cfg w
     = (println w (''error reading failover file '' @ n @ '': '' @ err), False)"
  using assms by (simp add: processFailoverFiles_def)

lemma cycle_corrupt:
  assumes "FailoverDir cfg \<noteq> []" and "firstFailoverFile (fdir w) = Some n"
    and "ReadFile (fdir w) n = Inr data" and "unmarshalBatch lib data = Inl err"
  shows "processFailoverFiles lib cfg w
     = (Remove n (println w (''error unmarshalling failover file '' @ n @ '': ''
                                      @ err @ '', deleting corrupt file.'')), False)"
  using assms by (simp add: processFailoverFiles_def)

lemma cycle_sent:
  assumes "FailoverDir cfg \<noteq> []" and "firstFailoverFile (fdir w) = Some n"
    and "ReadFile (fdir w) n = Inr data" and "unmarshalBatch lib data = Inr es"
    and "sendToElasticsearch lib (Some cfg)
           (println w (''attempting to send batch from failover file: '' @ n)) es = (w2, es1, None)"
  shows "processFailoverFiles lib cfg w
     = (Remove n (println w2 (''successfully sent batch from '' @ n @ '', deleting file.'')), True)"
  using assms by (simp add: processFailoverFiles_def Let_def)

lemma cycle_send_failed:
  assumes "FailoverDir cfg \<noteq> []" and "firstFailoverFile (fdir w) = Some n"
    and "ReadFile (fdir w) n = Inr data" and "unmarshalBatch lib data = Inr es"
    and "sendToElasticsearch lib (Some cfg)
           (println w (''attempting to send batch from failover file: '' @ n)) es = (w2, es1, Some e)"
  shows "processFailoverFiles lib cfg w
     = (println w2 (''failed to send batch from '' @ n @ '', will retry later: '' @ e), False)"
  using assms by (simp add: processFailoverFiles_def Let_def)

lemma cycle_idle:
  assumes "FailoverDir cfg = [] \<or> firstFailoverFile (fdir w) = None"
  shows "processFailoverFiles lib cfg w = (w, False)"
  using assms by (auto simp: processFailoverFiles_def)

lemma delete_absent: "n \<notin> fst ` set (AList.delete n files)"
  by (simp add: AList.delete_eq image_iff) 

text \<open>
  C5. In a retry cycle that has a file \<open>n\<close> to work on, the file is in the directory
  before the cycle, and after it the directory is either as it was or as it was with
  \<open>n\<close> deleted. It is deleted exactly when the file could be read and either its
  contents did not deserialize or the resend returned no error. A corrupt record is
  deleted without any request being issued; a failed resend leaves the directory as it
  was. Deleting \<open>n\<close> changes no other entry, and no entry's contents are ever rewritten.
\<close>

theorem failover_record_disposition:
  assumes "fdir w = Inr files" and "FailoverDir cfg \<noteq> []"
    and "firstFailoverFile (fdir w) = Some n"
    and "processFailoverFiles lib cfg w = (w', ok)"
  shows "n \<in> fst ` set files
    \<and> (fdir w' = Inr files \<or> fdir w' = Inr (AList.delete n files))
    \<and> (fdir w' = Inr (AList.delete n files)) =
        (\<exists>data. ReadFile (fdir w) n = Inr data
           \<and> (case unmarshalBatch lib data of
                 Inl err \<Rightarrow> True
               | Inr es \<Rightarrow>
                   snd (snd (sendToElasticsearch lib (Some cfg)
                     (println w (''attempting to send batch from failover file: '' @ n)) es)) = None))
    \<and> (\<forall>data err. ReadFile (fdir w) n = Inr data \<and> unmarshalBatch lib data = Inl err
          \<longrightarrow> sent w' = sent w \<and> \<not> ok)
    \<and> (\<forall>data es. ReadFile (fdir w) n = Inr data \<and> unmarshalBatch lib data = Inr es
          \<and> snd (snd (sendToElasticsearch lib (Some cfg)
                 (println w (''attempting to send batch from failover file: '' @ n)) es)) \<noteq> None
          \<longrightarrow> fdir w' = Inr files \<and> \<not> ok)
    \<and> (\<forall>m. m \<noteq> n \<longrightarrow> map_of (AList.delete n files) m = map_of files m)"
proof -
  have present: "n \<in> fst ` set files"
    using first_present(1) [OF assms(1,3)] .
  have neq: "AList.delete n files \<noteq> files"
    using present delete_absent [of n files] by auto
  have others: "\<forall>m. m \<noteq> n \<longrightarrow> map_of (AList.delete n files) m = map_of files m"
    by (simp add: AList.delete_conv')
  show ?thesis
  proof (cases "ReadFile (fdir w) n")
    case (Inl err)
    have "w' = println w (''error reading failover file '' @ n @ '': '' @ err)" "\<not> ok"
      using cycle_read_error [OF assms(2,3) Inl, of lib] assms(4) by simp_all
    then show ?thesis using present others neq assms(1) Inl by simp
  next
    case (Inr data)
    show ?thesis
    proof (cases "unmarshalBatch lib data")
      case (Inl err)
      have "w' = Remove n (println w (''error unmarshalling failover file '' @ n @ '': ''
                                      @ err @ '', deleting corrupt file.''))" "\<not> ok"
        using cycle_corrupt [OF assms(2,3) Inr Inl] assms(4) by simp_all
      then show ?thesis using present others neq assms(1) Inr Inl by simp
    next
      case es: (Inr es)
      obtain w2 es1 r where s: "sendToElasticsearch lib (Some cfg)
           (println w (''attempting to send batch from failover file: '' @ n)) es = (w2, es1, r)"
        by (cases "sendToElasticsearch lib (Some cfg)
           (println w (''attempting to send batch from failover file: '' @ n)) es") auto
      have f2: "fdir w2 = Inr files" using send_fdir [OF s] assms(1) by simp
      show ?thesis
      proof (cases r)
        case None
        have "w' = Remove n (println w2 (''successfully sent batch from '' @ n @ '', deleting file.''))" "ok"
          using cycle_sent [OF assms(2,3) Inr es s [unfolded None]] assms(4) by simp_all
        then show ?thesis using present others neq f2 Inr es s None by simp
      next
        case (Some e)
        have "w' = println w2 (''failed to send batch from '' @ n @ '', will retry later: '' @ e)" "\<not> ok"
          using cycle_send_failed [OF assms(2,3) Inr es s [unfolded Some]] assms(4) by simp_all
        then show ?thesis using present others neq f2 Inr es s Some by simp
      qed
    qed
  qed
qed


lemma attempt_line_inject:
  "(''attempting to send batch from failover file: '' @ m
      = ''attempting to send batch from failover file: '' @ n) = (m = n)"
  by simp



lemma eval_first_two:
  "firstFailoverFile (Inr [(''batch-100.json'', File ''[]''), (''batch-200.json'', File ''[]'')])
     = Some ''batch-100.json''"
  by (simp add: firstFailoverFile_def Glob_json_def suffix_to_prefix)

lemma eval_names:
  "batch_name 999999999999999999 = ''batch-999999999999999999.json''"
  "batch_name 1000000000000000000 = ''batch-1000000000000000000.json''"
  "batch_name 1700000000000000000 = ''batch-1700000000000000000.json''"
  by (simp_all add: batch_name_def show_int_def show_nat.simps digit_char_def)


lemma eval_send_empty:
  "sendToElasticsearch sample_env (Some sample_cfg) \<lparr>sent = [], fdir = d, diag = l\<rparr> []
     = (\<lparr>sent = [bulk_request sample_cfg ''gz''], fdir = d, diag = l\<rparr>, [],
        Some (''Error Response Status: 503 Service Unavailable'' @ newline @ ''Response Body: busy''))"
  by (simp add: sendToElasticsearch_def sample_env_def Let_def)





theorem failover_record_disposition_witness:
  "fdir (fst (processFailoverFiles sample_env sample_cfg
      \<lparr>sent = [],
       fdir = Inr [(''batch-100.json'', File ''[]''), (''batch-200.json'', File ''[]'')],
       diag = []\<rparr>))
   = Inr [(''batch-100.json'', File ''[]''), (''batch-200.json'', File ''[]'')]"
proof -
  let ?files = "[(''batch-100.json'', File ''[]''), (''batch-200.json'', File ''[]'')]"
  let ?w = "\<lparr>sent = [], fdir = Inr ?files, diag = []\<rparr>"
  have run: "processFailoverFiles sample_env sample_cfg ?w
      = (fst (processFailoverFiles sample_env sample_cfg ?w),
         snd (processFailoverFiles sample_env sample_cfg ?w))"
    by simp
  have d: "fdir ?w = Inr ?files" by simp
  have c: "FailoverDir sample_cfg \<noteq> []" by (simp add: sample_cfg_def)
  have f: "firstFailoverFile (fdir ?w) = Some ''batch-100.json''"
    by (simp add: eval_first_two)
  have r: "ReadFile (fdir ?w) ''batch-100.json'' = Inr ''[]''"
    by (simp add: ReadFile_def)
  have u: "unmarshalBatch sample_env ''[]'' = Inr []" by (simp add: sample_env_def)
  have s: "snd (snd (sendToElasticsearch sample_env (Some sample_cfg)
      (println ?w (''attempting to send batch from failover file: '' @ ''batch-100.json'')) []))
     \<noteq> None"
    by (simp add: println_def eval_send_empty)
  have "\<forall>data es. ReadFile (fdir ?w) ''batch-100.json'' = Inr data
          \<and> unmarshalBatch sample_env data = Inr es
          \<and> snd (snd (sendToElasticsearch sample_env (Some sample_cfg)
                 (println ?w (''attempting to send batch from failover file: ''
                              @ ''batch-100.json'')) es)) \<noteq> None
          \<longrightarrow> fdir (fst (processFailoverFiles sample_env sample_cfg ?w)) = Inr ?files
              \<and> \<not> snd (processFailoverFiles sample_env sample_cfg ?w)"
    using failover_record_disposition [OF d c f run] by blast
  then show ?thesis using r u s by blast
qed

section \<open>The cap of the failover store\<close>

lemma filter_update_other:
  assumes "\<And>v. \<not> P (k, v)"
  shows "filter P (AList.update k v al) = filter P al"
  using assms by (induction al) auto

lemma filter_delete_other:
  assumes "\<And>v. \<not> P (k, v)"
  shows "filter P (AList.delete k al) = filter P al"
  using assms by (induction al) auto

lemma batch_name_json: "suffix ''.json'' (batch_name t)"
  by (simp add: batch_name_def suffix_def)

lemma count_split:
  "length files = length (Glob_json (Inr files)) + length (filter not_record files)"
proof -
  have "length (Glob_json (Inr files)) = length (filter (\<lambda>x. suffix ''.json'' (fst x)) files)"
    by (simp add: Glob_json_def filter_map comp_def)
  moreover have "filter not_record files = filter (\<lambda>x. \<not> suffix ''.json'' (fst x)) files"
    by (simp add: not_record_def [abs_def])
  ultimately show ?thesis
    using sum_length_filter_compl [of "\<lambda>x. suffix ''.json'' (fst x)" files] by simp
qed

lemma save_keeps_others:
  assumes "fdir w = Inr files"
  shows "\<exists>files'. fdir (fst (saveBatchToDisk lib cfg now w es)) = Inr files'
           \<and> filter not_record files' = filter not_record files"
proof -
  have k: "\<And>v. \<not> not_record (batch_name now, v)"
    by (simp add: not_record_def batch_name_json)
  show ?thesis
    using assms filter_update_other [of not_record "batch_name now", OF k]
    by (auto simp: saveBatchToDisk_def WriteFile_def Let_def
        split: sum.splits option.splits node.splits if_splits)
qed

lemma failover_cycle_dir:
  assumes "fdir w = Inr files" and "FailoverDir cfg \<noteq> []"
    and "firstFailoverFile (fdir w) = Some n"
  shows "fdir (fst (processFailoverFiles lib cfg w)) = Inr files
      \<or> fdir (fst (processFailoverFiles lib cfg w)) = Inr (AList.delete n files)"
proof (cases "ReadFile (fdir w) n")
  case (Inl err)
  show ?thesis using cycle_read_error [OF assms(2,3) Inl, of lib] assms(1) by simp
next
  case (Inr data)
  show ?thesis
  proof (cases "unmarshalBatch lib data")
    case (Inl err)
    show ?thesis using cycle_corrupt [OF assms(2,3) Inr Inl] assms(1) by simp
  next
    case es: (Inr es)
    obtain w2 es1 r where s: "sendToElasticsearch lib (Some cfg)
         (println w (''attempting to send batch from failover file: '' @ n)) es = (w2, es1, r)"
      by (cases "sendToElasticsearch lib (Some cfg)
         (println w (''attempting to send batch from failover file: '' @ n)) es") auto
    have f2: "fdir w2 = Inr files" using send_fdir [OF s] assms(1) by simp
    show ?thesis
    proof (cases r)
      case None
      show ?thesis using cycle_sent [OF assms(2,3) Inr es s [unfolded None]] f2 by simp
    next
      case (Some e)
      show ?thesis using cycle_send_failed [OF assms(2,3) Inr es s [unfolded Some]] f2 by simp
    qed
  qed
qed

lemma cycle_keeps_others:
  assumes "fdir w = Inr files"
  shows "\<exists>files'. fdir (fst (processFailoverFiles lib cfg w)) = Inr files'
           \<and> filter not_record files' = filter not_record files"
proof (cases "FailoverDir cfg = [] \<or> firstFailoverFile (fdir w) = None")
  case True
  show ?thesis using cycle_idle [OF True, of lib] assms by simp
next
  case False
  then obtain n where c: "FailoverDir cfg \<noteq> []" and n: "firstFailoverFile (fdir w) = Some n"
    by auto
  have j: "\<And>v. \<not> not_record (n, v)"
    using first_present(2) [OF assms n] by (simp add: not_record_def)
  have run: "processFailoverFiles lib cfg w
      = (fst (processFailoverFiles lib cfg w), snd (processFailoverFiles lib cfg w))"
    by simp
  have "fdir (fst (processFailoverFiles lib cfg w)) = Inr files
      \<or> fdir (fst (processFailoverFiles lib cfg w)) = Inr (AList.delete n files)"
    using failover_cycle_dir [OF assms c n] by simp
  then show ?thesis using filter_delete_other [of not_record n, OF j] by auto
qed


text \<open>
  C10. \<open>saveBatchToDisk\<close> writes a record only when the number of all entries of the
  failover directory, of whatever kind, is below \<open>MaxFailoverFiles\<close>, and otherwise
  returns an error and changes nothing. That number is the number of matches of
  \<open>*.json\<close> plus the number of entries that do not match. A retry cycle only ever selects
  a name that ends in \<open>.json\<close>, and neither a retry cycle nor a save changes the entries
  that do not match: they stay, in their order, and keep counting against the cap.
\<close>

theorem non_record_entries_consume_capacity:
  assumes "fdir w = Inr files"
  shows "(snd (saveBatchToDisk lib cfg now w es) = None \<longrightarrow> int (length files) < MaxFailoverFiles cfg)
    \<and> (int (length files) \<ge> MaxFailoverFiles cfg
         \<longrightarrow> fst (saveBatchToDisk lib cfg now w es) = w \<and> snd (saveBatchToDisk lib cfg now w es) \<noteq> None)
    \<and> length files = length (Glob_json (fdir w)) + length (filter not_record files)
    \<and> (\<forall>n. firstFailoverFile (fdir w) = Some n \<longrightarrow> suffix ''.json'' n)
    \<and> (\<exists>files'. fdir (fst (processFailoverFiles lib cfg w)) = Inr files'
           \<and> filter not_record files' = filter not_record files)
    \<and> (\<exists>files'. fdir (fst (saveBatchToDisk lib cfg now w es)) = Inr files'
           \<and> filter not_record files' = filter not_record files)"
proof -
  have a: "snd (saveBatchToDisk lib cfg now w es) = None \<longrightarrow> int (length files) < MaxFailoverFiles cfg"
    using save_changes_only_if_room [of lib cfg now w es] assms by auto
  have b: "int (length files) \<ge> MaxFailoverFiles cfg
         \<longrightarrow> fst (saveBatchToDisk lib cfg now w es) = w \<and> snd (saveBatchToDisk lib cfg now w es) \<noteq> None"
    using save_full [OF assms] by blast
  have c: "length files = length (Glob_json (fdir w)) + length (filter not_record files)"
    using count_split [of files] assms by simp
  have d: "\<forall>n. firstFailoverFile (fdir w) = Some n \<longrightarrow> suffix ''.json'' n"
    using first_present(2) [OF assms] by blast
  show ?thesis
    using a b c d cycle_keeps_others [OF assms] save_keeps_others [OF assms] by blast
qed

theorem non_record_entries_consume_capacity_witness:
  "saveBatchToDisk sample_env sample_cfg 1700000000000000000
      \<lparr>sent = [], fdir = Inr [(''lost+found'', Subdir), (''notes.txt'', File ''x'')], diag = []\<rparr>
      [sample_entry ''first'']
   = (\<lparr>sent = [], fdir = Inr [(''lost+found'', Subdir), (''notes.txt'', File ''x'')], diag = []\<rparr>,
      snd (saveBatchToDisk sample_env sample_cfg 1700000000000000000
      \<lparr>sent = [], fdir = Inr [(''lost+found'', Subdir), (''notes.txt'', File ''x'')], diag = []\<rparr>
      [sample_entry ''first'']))"
proof -
  let ?files = "[(''lost+found'', Subdir), (''notes.txt'', File ''x'')]"
  let ?w = "\<lparr>sent = [], fdir = Inr ?files, diag = []\<rparr>"
  have d: "fdir ?w = Inr ?files" by simp
  have full: "int (length ?files) \<ge> MaxFailoverFiles sample_cfg"
    by (simp add: sample_cfg_def)
  have "int (length ?files) \<ge> MaxFailoverFiles sample_cfg
         \<longrightarrow> fst (saveBatchToDisk sample_env sample_cfg 1700000000000000000 ?w [sample_entry ''first'']) = ?w"
    using non_record_entries_consume_capacity [OF d] by blast
  then have "fst (saveBatchToDisk sample_env sample_cfg 1700000000000000000 ?w [sample_entry ''first'']) = ?w"
    using full by blast
  then show ?thesis by (simp add: prod_eq_iff)
qed

text \<open>
  C2 (as amended). With the failover directory configured and listable: when the number
  of its entries of any kind is at least \<open>MaxFailoverFiles\<close>, \<open>saveBatchToDisk\<close> returns
  an error and leaves the state as it was. When it is below, the batch can be marshalled,
  the file can be written and no entry has the name of the new record, exactly one entry
  is added, after the existing ones, which are unchanged: the record named after the
  clock reading, holding the JSON array of the marshalled entries in batch order.
\<close>

theorem failover_store_bound:
  assumes "fdir w = Inr files" and "FailoverDir cfg \<noteq> []"
  shows "(int (length files) \<ge> MaxFailoverFiles cfg
         \<longrightarrow> fst (saveBatchToDisk lib cfg now w es) = w \<and> snd (saveBatchToDisk lib cfg now w es) \<noteq> None)
    \<and> (\<forall>data. int (length files) < MaxFailoverFiles cfg \<and> marshalBatch lib es = Inr data
            \<and> writeError lib (batch_name now) = None \<and> batch_name now \<notin> fst ` set files
         \<longrightarrow> saveBatchToDisk lib cfg now w es
               = (w\<lparr>fdir := Inr (files @ [(batch_name now, File data)])\<rparr>, None))
    \<and> (\<forall>js. es \<noteq> [] \<and> marshal_elems lib es = Inr js
         \<longrightarrow> map Inr js = map (marshalEntry lib) es
             \<and> marshalBatch lib es = Inr (''['' @ join_comma js @ '']''))"
proof -
  have a: "int (length files) \<ge> MaxFailoverFiles cfg
         \<longrightarrow> fst (saveBatchToDisk lib cfg now w es) = w \<and> snd (saveBatchToDisk lib cfg now w es) \<noteq> None"
    using save_full [OF assms(1)] by blast
  have b: "\<forall>data. int (length files) < MaxFailoverFiles cfg \<and> marshalBatch lib es = Inr data
            \<and> writeError lib (batch_name now) = None \<and> batch_name now \<notin> fst ` set files
         \<longrightarrow> saveBatchToDisk lib cfg now w es
               = (w\<lparr>fdir := Inr (files @ [(batch_name now, File data)])\<rparr>, None)"
    using save_fresh [OF assms] by blast
  have c: "\<forall>js. es \<noteq> [] \<and> marshal_elems lib es = Inr js
         \<longrightarrow> map Inr js = map (marshalEntry lib) es
             \<and> marshalBatch lib es = Inr (''['' @ join_comma js @ '']'')"
    using marshal_elems_in_order [of lib es] by (simp add: marshalBatch_def)
  show ?thesis using a b c by blast
qed

theorem failover_store_bound_witness:
  "saveBatchToDisk sample_env sample_cfg 1700000000000000000 empty_world
      [sample_entry ''first'', sample_entry ''second'']
   = (\<lparr>sent = [],
       fdir = Inr [(''batch-1700000000000000000.json'',
                    File ''[{\"message\":\"first\"},{\"message\":\"second\"}]'')],
       diag = []\<rparr>, None)"
proof -
  let ?es = "[sample_entry ''first'', sample_entry ''second'']"
  have d: "fdir empty_world = Inr []" by (simp add: empty_world_def)
  have c: "FailoverDir sample_cfg \<noteq> []" by (simp add: sample_cfg_def)
  have m: "marshalBatch sample_env ?es = Inr ''[{\"message\":\"first\"},{\"message\":\"second\"}]''"
    by (simp add: marshalBatch_def sample_env_def sample_entry_def)
  have h: "int (length ([] :: directory)) < MaxFailoverFiles sample_cfg
      \<and> marshalBatch sample_env ?es = Inr ''[{\"message\":\"first\"},{\"message\":\"second\"}]''
      \<and> writeError sample_env (batch_name 1700000000000000000) = None
      \<and> batch_name 1700000000000000000 \<notin> fst ` set ([] :: directory)"
    using m by (simp add: sample_cfg_def sample_env_def)
  have "\<forall>data. int (length ([] :: directory)) < MaxFailoverFiles sample_cfg
            \<and> marshalBatch sample_env ?es = Inr data
            \<and> writeError sample_env (batch_name 1700000000000000000) = None
            \<and> batch_name 1700000000000000000 \<notin> fst ` set ([] :: directory)
         \<longrightarrow> saveBatchToDisk sample_env sample_cfg 1700000000000000000 empty_world ?es
               = (empty_world\<lparr>fdir := Inr ([] @ [(batch_name 1700000000000000000, File data)])\<rparr>, None)"
    using failover_store_bound [OF d c] by blast
  then have "saveBatchToDisk sample_env sample_cfg 1700000000000000000 empty_world ?es
     = (empty_world\<lparr>fdir := Inr ([] @ [(batch_name 1700000000000000000,
           File ''[{\"message\":\"first\"},{\"message\":\"second\"}]'')])\<rparr>, None)"
    using h by blast
  then show ?thesis by (simp add: empty_world_def eval_names)
qed

text \<open>
  C2 as stated fails: with no record at rest and \<open>MaxFailoverFiles = 2\<close>, two entries
  that are not records make \<open>saveBatchToDisk\<close> drop the batch.
\<close>

theorem room_for_records_yet_batch_dropped:
  "int (length (Glob_json (Inr [(''lost+found'', Subdir), (''notes.txt'', File ''x'')])))
     < MaxFailoverFiles sample_cfg
   \<and> saveBatchToDisk sample_env sample_cfg 1700000000000000000
      \<lparr>sent = [], fdir = Inr [(''lost+found'', Subdir), (''notes.txt'', File ''x'')], diag = []\<rparr>
      [sample_entry ''first'']
   = (\<lparr>sent = [], fdir = Inr [(''lost+found'', Subdir), (''notes.txt'', File ''x'')], diag = []\<rparr>,
      Some ''max failover files limit (2) reached, discarding batch'')"
  by (simp add: Glob_json_def suffix_to_prefix sample_cfg_def saveBatchToDisk_def show_int_def
      show_nat.simps digit_char_def)

section \<open>Flushing a batch\<close>


lemma save_frame:
  "sent (fst (saveBatchToDisk lib cfg now w es)) = sent w
   \<and> diag (fst (saveBatchToDisk lib cfg now w es)) = diag w"
  by (auto simp: saveBatchToDisk_def Let_def split: if_splits sum.splits)




lemma sendOrSave_delivered:
  assumes "sendToElasticsearch lib (Some cfg) w es = (w1, es1, None)"
  shows "sendOrSave lib cfg now w es = w1"
  using assms by (simp add: sendOrSave_def)

lemma sendOrSave_failed:
  assumes "sendToElasticsearch lib (Some cfg) w es = (w1, es1, Some e)"
  shows "sendOrSave lib cfg now w es =
     (case snd (saveBatchToDisk lib cfg now (println w1
                 (''error sending log entries to Elasticsearch, saving to disk for retry: '' @ e))
                 es1) of
           None \<Rightarrow> println (fst (saveBatchToDisk lib cfg now (println w1
                 (''error sending log entries to Elasticsearch, saving to disk for retry: '' @ e))
                 es1)) ''successfully saved failed batch to disk''
         | Some e2 \<Rightarrow> println (fst (saveBatchToDisk lib cfg now (println w1
                 (''error sending log entries to Elasticsearch, saving to disk for retry: '' @ e))
                 es1)) (''CRITICAL: Failed to save batch to disk: '' @ e2))"
  using assms by (simp add: sendOrSave_def Let_def split_beta split: option.splits)




lemma eval_send_one:
  "sendToElasticsearch sample_env (Some sample_cfg) \<lparr>sent = [], fdir = d, diag = l\<rparr>
      [sample_entry ''first'']
   = (\<lparr>sent = [bulk_request sample_cfg
         (''gz'' @ action_line ''logs'' @ newline @ ''{\"message\":\"first\"}'' @ newline)],
       fdir = d, diag = l\<rparr>,
      [sample_entry ''first''],
      Some (''Error Response Status: 503 Service Unavailable'' @ newline @ ''Response Body: busy''))"
  by (simp add: sendToElasticsearch_def sample_env_def sample_cfg_def sample_entry_def
      Let_def Json_def Trim_def newline_def bulk_request_def)



lemma send_ok_sent:
  assumes "sendToElasticsearch lib e w es = (w1, es1, None)"
  shows "\<exists>req. sent w1 = sent w @ [req]"
  using assms
  by (auto simp: sendToElasticsearch_def Let_def
      split: prod.splits gz_result.splits option.splits http_outcome.splits sum.splits if_splits)

lemma sendOrSave_changes: "sendOrSave lib cfg now w es \<noteq> w"
proof -
  obtain w1 es1 r where s: "sendToElasticsearch lib (Some cfg) w es = (w1, es1, r)"
    by (cases "sendToElasticsearch lib (Some cfg) w es") auto
  show ?thesis
  proof (cases r)
    case None
    then have "sendOrSave lib cfg now w es = w1"
      using sendOrSave_delivered s by simp
    moreover have "length (sent w1) = Suc (length (sent w))"
      using send_ok_sent [OF s [unfolded None]] by auto
    ultimately show ?thesis by auto
  next
    case (Some e)
    let ?w2 = "println w1 (''error sending log entries to Elasticsearch, saving to disk for retry: '' @ e)"
    let ?r = "saveBatchToDisk lib cfg now ?w2 es1"
    have d2: "diag (fst ?r) = diag w @ [''error sending log entries to Elasticsearch, saving to disk for retry: '' @ e]"
      using save_frame [of lib cfg now ?w2 es1] send_diag [OF s] by simp
    have "length (diag (sendOrSave lib cfg now w es)) = length (diag w) + 2"
      unfolding sendOrSave_failed [OF s [unfolded Some]]
      using d2 by (cases "snd ?r") simp_all
    then show ?thesis by auto
  qed
qed

text \<open>
  C3 (as amended). One pass of the worker's \<open>select\<close> flushes exactly when the received
  entry brings the batch to \<open>EntriesToHold\<close> entries, or a tick arrives while the batch is
  non-empty, or the channel is closed while the batch is non-empty. After a flush on
  size or on a tick the batch is empty; only the flush on size resets the ticker. Below
  the threshold an entry is only appended, and a tick on an empty batch does nothing.
  The closing of the channel stops the worker.
\<close>

theorem flush_triggers:
  assumes "onSelect lib cfg now (h, w) ev = (h', w')"
  shows "(w' \<noteq> w) = ((\<exists>e. ev = Recv e \<and> int (length (entries h)) + 1 \<ge> EntriesToHold cfg)
                     \<or> (ev = Tick \<and> entries h \<noteq> [])
                     \<or> (ev = Closed \<and> entries h \<noteq> []))
    \<and> (\<forall>e. ev = Recv e \<and> int (length (entries h)) + 1 \<ge> EntriesToHold cfg
          \<longrightarrow> w' = sendOrSave lib cfg now w (entries h @ [e]) \<and> entries h' = []
              \<and> resets h' = Suc (resets h) \<and> running h' = running h)
    \<and> (\<forall>e. ev = Recv e \<and> int (length (entries h)) + 1 < EntriesToHold cfg
          \<longrightarrow> w' = w \<and> entries h' = entries h @ [e]
              \<and> resets h' = resets h \<and> running h' = running h)
    \<and> (ev = Tick \<and> entries h \<noteq> []
          \<longrightarrow> w' = sendOrSave lib cfg now w (entries h) \<and> entries h' = []
              \<and> resets h' = resets h \<and> running h' = running h)
    \<and> (ev = Tick \<and> entries h = [] \<longrightarrow> w' = w \<and> h' = h)
    \<and> (ev = Closed
          \<longrightarrow> \<not> running h'
              \<and> w' = (if entries h \<noteq> [] then sendOrSave lib cfg now w (entries h) else w))"
proof (cases ev)
  case (Recv e)
  show ?thesis
  proof (cases "int (length (entries h)) + 1 \<ge> EntriesToHold cfg")
    case True
    have "h' = h\<lparr>entries := [], resets := Suc (resets h)\<rparr>"
      "w' = sendOrSave lib cfg now w (entries h @ [e])"
      using assms Recv True by (simp_all add: onSelect_def Let_def)
    then show ?thesis using Recv True sendOrSave_changes [of lib cfg now w "entries h @ [e]"]
      by simp
  next
    case False
    have "h' = h\<lparr>entries := entries h @ [e]\<rparr>" "w' = w"
      using assms Recv False by (simp_all add: onSelect_def Let_def)
    then show ?thesis using Recv False by simp
  qed
next
  case Closed
  have "h' = h\<lparr>running := False\<rparr>"
    "w' = (if entries h \<noteq> [] then sendOrSave lib cfg now w (entries h) else w)"
    using assms Closed by (auto simp add: onSelect_def Let_def)
  then show ?thesis using Closed sendOrSave_changes [of lib cfg now w "entries h"]
    by simp
next
  case Tick
  show ?thesis
  proof (cases "entries h = []")
    case True
    have "h' = h" "w' = w" using assms Tick True by (simp_all add: onSelect_def Let_def)
    then show ?thesis using Tick True by simp
  next
    case False
    have "h' = h\<lparr>entries := []\<rparr>" "w' = sendOrSave lib cfg now w (entries h)"
      using assms Tick False by (simp_all add: onSelect_def Let_def)
    then show ?thesis using Tick False sendOrSave_changes [of lib cfg now w "entries h"]
      by simp
  qed
qed


theorem flush_triggers_witness:
  "entries (fst (onSelect sample_env sample_cfg 1700000000000000000
       (\<lparr>entries = [sample_entry ''first''], resets = 0, running = True\<rparr>, empty_world)
       (Recv (sample_entry ''second'')))) = []
   \<and> resets (fst (onSelect sample_env sample_cfg 1700000000000000000
       (\<lparr>entries = [sample_entry ''first''], resets = 0, running = True\<rparr>, empty_world)
       (Recv (sample_entry ''second'')))) = 1
   \<and> snd (onSelect sample_env sample_cfg 1700000000000000000
       (\<lparr>entries = [sample_entry ''first''], resets = 0, running = True\<rparr>, empty_world)
       (Recv (sample_entry ''second'')))
     = sendOrSave sample_env sample_cfg 1700000000000000000 empty_world
         [sample_entry ''first'', sample_entry ''second'']"
proof -
  let ?h = "\<lparr>entries = [sample_entry ''first''], resets = 0, running = True\<rparr>"
  let ?r = "onSelect sample_env sample_cfg 1700000000000000000 (?h, empty_world)
       (Recv (sample_entry ''second''))"
  have run: "?r = (fst ?r, snd ?r)" by simp
  have full: "int (length (entries ?h)) + 1 \<ge> EntriesToHold sample_cfg"
    by (simp add: sample_cfg_def)
  have "\<forall>e. Recv (sample_entry ''second'') = Recv e
           \<and> int (length (entries ?h)) + 1 \<ge> EntriesToHold sample_cfg
          \<longrightarrow> snd ?r = sendOrSave sample_env sample_cfg 1700000000000000000 empty_world
                          (entries ?h @ [e])
              \<and> entries (fst ?r) = [] \<and> resets (fst ?r) = Suc (resets ?h)"
    using flush_triggers [OF run] by blast
  then have "snd ?r = sendOrSave sample_env sample_cfg 1700000000000000000 empty_world
                          (entries ?h @ [sample_entry ''second''])
              \<and> entries (fst ?r) = [] \<and> resets (fst ?r) = Suc (resets ?h)"
    using full by blast
  then show ?thesis by simp
qed

text \<open>
  C3 as stated fails: a batch of one entry, below \<open>EntriesToHold = 2\<close>, is flushed when
  the channel is closed, with no tick, and the batch is not emptied.
\<close>

theorem flush_on_close_below_threshold:
  "int (length [sample_entry ''first'']) < EntriesToHold sample_cfg
   \<and> sent (snd (onSelect sample_env sample_cfg 1700000000000000000
       (\<lparr>entries = [sample_entry ''first''], resets = 0, running = True\<rparr>, empty_world)
       Closed))
     = [bulk_request sample_cfg
         (''gz'' @ action_line ''logs'' @ newline @ ''{\"message\":\"first\"}'' @ newline)]
   \<and> entries (fst (onSelect sample_env sample_cfg 1700000000000000000
       (\<lparr>entries = [sample_entry ''first''], resets = 0, running = True\<rparr>, empty_world)
       Closed)) = [sample_entry ''first'']"
proof -
  have s: "sent (sendOrSave sample_env sample_cfg 1700000000000000000 empty_world
             [sample_entry ''first''])
     = [bulk_request sample_cfg
         (''gz'' @ action_line ''logs'' @ newline @ ''{\"message\":\"first\"}'' @ newline)]"
    unfolding empty_world_def sendOrSave_failed [OF eval_send_one]
    using save_frame [of sample_env sample_cfg 1700000000000000000]
    by (simp split: option.splits)
  show ?thesis
    using s by (simp add: onSelect_def sample_cfg_def)
qed

section \<open>Rotation and compression in the file sink\<close>


lemma ensureFolder_indep:
  "dirs d2 = dirs d1 \<Longrightarrow> isl (ensureFolder fe folder d2) = isl (ensureFolder fe folder d1)"
  by (auto simp: ensureFolder_def split: if_splits option.splits)










lemma gz_name_differs: "name @ ''.gz'' \<noteq> name"
  by simp









end
